theory Spec2Isabelle
  imports Main "HOL-Library.Sublist"
begin

section \<open>The Material element of the 3DOM API\<close>

text \<open>
  A shallow embedding of \<^verbatim>\<open>packages/3dom/src/api/material.ts\<close>: the class that
  \<^verbatim>\<open>defineMaterial\<close> returns, its constructor and its five accessors.
\<close>

subsection \<open>Values\<close>

text \<open>
  A JavaScript value that may be missing. A property that the object does not have reads as
  \<^verbatim>\<open>undefined\<close>; \<^verbatim>\<open>null\<close> is a value of its own. The constructor tests
  its inputs with \<^verbatim>\<open>x != null\<close>, the loose comparison, which is false for both.
\<close>

datatype 'a nullable = Undefined | Null | Val 'a

fun neq_null :: "'a nullable \<Rightarrow> bool" where
  "neq_null Undefined = False"
| "neq_null Null = False"
| "neq_null (Val x) = True"

text \<open>
  Modelled from the spec: the declaration of \<^verbatim>\<open>SerializedMaterial\<close> (protocol.ts) is not
  among the sources. The record has the five fields that the constructor reads, and the
  identity that, by the spec, every snapshot carries (\<open>id'\<close>; the constructor never reads
  it). Nested snapshots are values of an arbitrary type \<open>'n\<close>.
\<close>

record 'n SerializedMaterial =
  id' :: "nat nullable"
  name :: "string nullable"
  pbrMetallicRoughness :: "'n nullable"
  normalTexture :: "'n nullable"
  occlusionTexture :: "'n nullable"
  emissiveTexture :: "'n nullable"

subsection \<open>The world outside the constructor\<close>

text \<open>
  The arguments of the constructor are references: \<^verbatim>\<open>kernel\<close> to the kernel object and
  \<^verbatim>\<open>serialized\<close> to the snapshot object. The snapshot lives in a store that the base
  constructor and the kernel can write too; \<open>host\<close> is every other piece of state they own.
\<close>

type_synonym ref = nat

record ('n, 'h) world =
  objects :: "ref \<Rightarrow> 'n SerializedMaterial"
  host :: 'h

text \<open>
  A call of a collaborator runs on the world, changes it, and returns a value (\<open>Inr\<close>) or
  throws (\<open>Inl\<close>). The two collaborators are parameters of the model: the base class
  \<^verbatim>\<open>ThreeDOMElement\<close>, which is the argument of \<^verbatim>\<open>defineMaterial\<close>, called as
  \<^verbatim>\<open>super(kernel, serialized)\<close>, and the method \<^verbatim>\<open>kernel.deserialize(kind, snapshot)\<close>,
  which takes its receiver first.
\<close>

type_synonym ('n, 'h, 'e, 'a) call = "('n, 'h) world \<Rightarrow> ('e + 'a) \<times> ('n, 'h) world"

type_synonym ('n, 'h, 'e, 'b) base_constructor = "ref \<Rightarrow> ref \<Rightarrow> ('n, 'h, 'e, 'b) call"

type_synonym ('n, 'h, 'e, 'v) deserializer =
  "ref \<Rightarrow> string \<Rightarrow> 'n nullable \<Rightarrow> ('n, 'h, 'e, 'v) call"

subsection \<open>The instance\<close>

text \<open>
  The six private slots, keyed in the source by the symbols \<^verbatim>\<open>$pbrMetallicRoughness\<close>,
  \<^verbatim>\<open>$normalTexture\<close>, \<^verbatim>\<open>$occlusionTexture\<close>, \<^verbatim>\<open>$emissiveTexture\<close>,
  \<^verbatim>\<open>$kernel\<close> and \<^verbatim>\<open>$name\<close>, and the part of the object that the base constructor
  made.
\<close>

record ('b, 'v) Material =
  base :: 'b
  sym_pbrMetallicRoughness :: "'v nullable"
  sym_normalTexture :: "'v nullable"
  sym_occlusionTexture :: "'v nullable"
  sym_emissiveTexture :: "'v nullable"
  sym_kernel :: "ref nullable"
  sym_name :: "string nullable"

text \<open>
  The field declarations of the class body, run when \<^verbatim>\<open>super\<close> has returned: the three
  texture slots are initialised to \<^verbatim>\<open>null\<close>, the other three have no initialiser.
\<close>

definition field_initializers :: "'b \<Rightarrow> ('b, 'v) Material" where
  "field_initializers b =
     \<lparr>base = b,
      sym_pbrMetallicRoughness = Undefined,
      sym_normalTexture = Null,
      sym_occlusionTexture = Null,
      sym_emissiveTexture = Null,
      sym_kernel = Undefined,
      sym_name = Undefined\<rparr>"

subsection \<open>Running the constructor\<close>

text \<open>
  The run of a constructor threads the world and a transcript of the calls it has made to
  its collaborators: each with its arguments and what it returned or threw. A call of
  \<^verbatim>\<open>kernel.deserialize\<close> is tagged with the slot that its result is assigned to.
\<close>

datatype slot = PbrMetallicRoughness | NormalTexture | OcclusionTexture | EmissiveTexture

datatype ('n, 'e, 'b, 'v) event =
    SuperCall ref ref "'e + 'b"
  | DeserializeCall slot ref string "'n nullable" "'e + 'v"

record ('n, 'h, 'e, 'b, 'v) machine =
  heap :: "('n, 'h) world"
  trace :: "('n, 'e, 'b, 'v) event list"

type_synonym ('n, 'h, 'e, 'b, 'v, 'a) run =
  "('n, 'h, 'e, 'b, 'v) machine \<Rightarrow> ('e + 'a) \<times> ('n, 'h, 'e, 'b, 'v) machine"

definition return :: "'a \<Rightarrow> ('n, 'h, 'e, 'b, 'v, 'a) run" where
  "return a = (\<lambda>m. (Inr a, m))"

text \<open>Sequencing: an exception of the first part skips the rest.\<close>

definition bind ::
  "('n, 'h, 'e, 'b, 'v, 'a) run \<Rightarrow> ('a \<Rightarrow> ('n, 'h, 'e, 'b, 'v, 'c) run) \<Rightarrow>
   ('n, 'h, 'e, 'b, 'v, 'c) run" where
  "bind f g = (\<lambda>m. case f m of (Inl e, m') \<Rightarrow> (Inl e, m') | (Inr a, m') \<Rightarrow> g a m')"

text \<open>A call of a collaborator, written to the transcript with its result.\<close>

definition invoke ::
  "(('e + 'a) \<Rightarrow> ('n, 'e, 'b, 'v) event) \<Rightarrow> ('n, 'h, 'e, 'a) call \<Rightarrow>
   ('n, 'h, 'e, 'b, 'v, 'a) run" where
  "invoke ev c = (\<lambda>m. case c (heap m) of
     (r, w) \<Rightarrow> (r, \<lparr>heap = w, trace = trace m @ [ev r]\<rparr>))"

text \<open>Reading the fields of the snapshot object that a reference points to.\<close>

definition load :: "ref \<Rightarrow> ('n, 'h, 'e, 'b, 'v, 'n SerializedMaterial) run" where
  "load r = (\<lambda>m. (Inr (objects (heap m) r), m))"

subsection \<open>The constructor\<close>

text \<open>
  The body of \<^verbatim>\<open>constructor(kernel, serialized)\<close>, statement by statement:
  \<^verbatim>\<open>super\<close>, the field initialisers, the kernel slot, the name if it is not null, the
  destructuring of the four nested snapshots, the unguarded deserialization of the PBR
  block, and the three guarded ones of the textures.
\<close>

definition Material_constructor ::
  "('n, 'h, 'e, 'b) base_constructor \<Rightarrow> ('n, 'h, 'e, 'v) deserializer \<Rightarrow> ref \<Rightarrow> ref \<Rightarrow>
   ('n, 'h, 'e, 'b, 'v, ('b, 'v) Material) run" where
  "Material_constructor ThreeDOMElement deserialize kernel' serialized =
     bind (invoke (SuperCall kernel' serialized) (ThreeDOMElement kernel' serialized)) (\<lambda>b.
     let this0 = field_initializers b;
         this1 = this0\<lparr>sym_kernel := Val kernel'\<rparr>
     in
     bind (load serialized) (\<lambda>s.
     let this2 = (if neq_null (name s) then this1\<lparr>sym_name := name s\<rparr> else this1);
         pbr = pbrMetallicRoughness s;
         normal = normalTexture s;
         occlusion = occlusionTexture s;
         emissive = emissiveTexture s
     in
     bind (invoke (DeserializeCall PbrMetallicRoughness kernel' ''pbr-metallic-roughness'' pbr)
             (deserialize kernel' ''pbr-metallic-roughness'' pbr)) (\<lambda>v.
     let this3 = this2\<lparr>sym_pbrMetallicRoughness := Val v\<rparr> in
     bind (if neq_null normal
           then bind (invoke (DeserializeCall NormalTexture kernel' ''texture-info'' normal)
                        (deserialize kernel' ''texture-info'' normal))
                  (\<lambda>v. return (this3\<lparr>sym_normalTexture := Val v\<rparr>))
           else return this3) (\<lambda>this4.
     bind (if neq_null occlusion
           then bind (invoke (DeserializeCall OcclusionTexture kernel' ''texture-info'' occlusion)
                        (deserialize kernel' ''texture-info'' occlusion))
                  (\<lambda>v. return (this4\<lparr>sym_occlusionTexture := Val v\<rparr>))
           else return this4) (\<lambda>this5.
     bind (if neq_null emissive
           then bind (invoke (DeserializeCall EmissiveTexture kernel' ''texture-info'' emissive)
                        (deserialize kernel' ''texture-info'' emissive))
                  (\<lambda>v. return (this5\<lparr>sym_emissiveTexture := Val v\<rparr>))
           else return this5) (\<lambda>this6.
     return this6))))))"

text \<open>\<^verbatim>\<open>new Material(kernel, serialized)\<close> in a world, with an empty transcript.\<close>

definition new_Material ::
  "('n, 'h, 'e, 'b) base_constructor \<Rightarrow> ('n, 'h, 'e, 'v) deserializer \<Rightarrow> ref \<Rightarrow> ref \<Rightarrow>
   ('n, 'h) world \<Rightarrow> ('e + ('b, 'v) Material) \<times> ('n, 'h, 'e, 'b, 'v) machine" where
  "new_Material ThreeDOMElement deserialize kernel' serialized w =
     Material_constructor ThreeDOMElement deserialize kernel' serialized \<lparr>heap = w, trace = []\<rparr>"

subsection \<open>The accessors\<close>

definition get_pbrMetallicRoughness :: "('b, 'v) Material \<Rightarrow> 'v nullable" where
  "get_pbrMetallicRoughness this = sym_pbrMetallicRoughness this"

definition get_normalTexture :: "('b, 'v) Material \<Rightarrow> 'v nullable" where
  "get_normalTexture this = sym_normalTexture this"

definition get_occlusionTexture :: "('b, 'v) Material \<Rightarrow> 'v nullable" where
  "get_occlusionTexture this = sym_occlusionTexture this"

definition get_emissiveTexture :: "('b, 'v) Material \<Rightarrow> 'v nullable" where
  "get_emissiveTexture this = sym_emissiveTexture this"

definition get_name :: "('b, 'v) Material \<Rightarrow> string nullable" where
  "get_name this = sym_name this"

subsection \<open>Reading a transcript\<close>

text \<open>The slot a call of \<^verbatim>\<open>kernel.deserialize\<close> was made for; none for \<^verbatim>\<open>super\<close>.\<close>

fun call_slot :: "('n, 'e, 'b, 'v) event \<Rightarrow> slot option" where
  "call_slot (SuperCall k s r) = None"
| "call_slot (DeserializeCall sl k kind n r) = Some sl"

text \<open>The call ended by throwing \<open>e\<close>.\<close>

fun threw :: "('n, 'e, 'b, 'v) event \<Rightarrow> 'e \<Rightarrow> bool" where
  "threw (SuperCall k s r) e = (r = Inl e)"
| "threw (DeserializeCall sl k kind n r) e = (r = Inl e)"

text \<open>The nested field of the snapshot that belongs to a slot, and the accessor of the slot.\<close>

fun snapshot_field :: "slot \<Rightarrow> 'n SerializedMaterial \<Rightarrow> 'n nullable" where
  "snapshot_field PbrMetallicRoughness s = pbrMetallicRoughness s"
| "snapshot_field NormalTexture s = normalTexture s"
| "snapshot_field OcclusionTexture s = occlusionTexture s"
| "snapshot_field EmissiveTexture s = emissiveTexture s"

fun get_nested :: "slot \<Rightarrow> ('b, 'v) Material \<Rightarrow> 'v nullable" where
  "get_nested PbrMetallicRoughness this = get_pbrMetallicRoughness this"
| "get_nested NormalTexture this = get_normalTexture this"
| "get_nested OcclusionTexture this = get_occlusionTexture this"
| "get_nested EmissiveTexture this = get_emissiveTexture this"

text \<open>The kind discriminator that the constructor passes for a slot.\<close>

fun kind_of :: "slot \<Rightarrow> string" where
  "kind_of PbrMetallicRoughness = ''pbr-metallic-roughness''"
| "kind_of NormalTexture = ''texture-info''"
| "kind_of OcclusionTexture = ''texture-info''"
| "kind_of EmissiveTexture = ''texture-info''"

text \<open>The calls of \<^verbatim>\<open>kernel.deserialize\<close> in a transcript, in order, without their results.\<close>

fun deserialize_calls ::
  "('n, 'e, 'b, 'v) event list \<Rightarrow> (slot \<times> ref \<times> string \<times> 'n nullable) list" where
  "deserialize_calls [] = []"
| "deserialize_calls (SuperCall k s r # evs) = deserialize_calls evs"
| "deserialize_calls (DeserializeCall sl k kind n r # evs) =
     (sl, k, kind, n) # deserialize_calls evs"

text \<open>
  The calls that the specification promises for a snapshot: the PBR block first, whatever it
  is, then the textures that are not null, normal before occlusion before emissive.
\<close>

definition expected_calls ::
  "ref \<Rightarrow> 'n SerializedMaterial \<Rightarrow> (slot \<times> ref \<times> string \<times> 'n nullable) list" where
  "expected_calls k s =
     (PbrMetallicRoughness, k, ''pbr-metallic-roughness'', pbrMetallicRoughness s)
     # map (\<lambda>sl. (sl, k, ''texture-info'', snapshot_field sl s))
         (filter (\<lambda>sl. neq_null (snapshot_field sl s))
            [NormalTexture, OcclusionTexture, EmissiveTexture])"

text \<open>
  The entry that a call leaves in the transcript of a constructor that has returned, read off
  the slot: the call returned the value now in the slot, and a slot without a value means
  that there was no call.
\<close>

fun returned ::
  "slot \<Rightarrow> ref \<Rightarrow> string \<Rightarrow> 'n nullable \<Rightarrow> 'v nullable \<Rightarrow> ('n, 'e, 'b, 'v) event list" where
  "returned sl k kind t (Val v) = [DeserializeCall sl k kind t (Inr v)]"
| "returned sl k kind t Null = []"
| "returned sl k kind t Undefined = []"

text \<open>
  An entry of a transcript is genuine when the collaborator, called with the arguments of
  the entry in some world, ends as the entry says.
\<close>

fun genuine ::
  "('n, 'h, 'e, 'b) base_constructor \<Rightarrow> ('n, 'h, 'e, 'v) deserializer \<Rightarrow>
   ('n, 'e, 'b, 'v) event \<Rightarrow> bool" where
  "genuine T D (SuperCall k s r) = (\<exists>w. fst (T k s w) = r)"
| "genuine T D (DeserializeCall sl k kind n r) = (\<exists>w. fst (D k kind n w) = r)"

text \<open>A run keeps an invariant of the machine, on return and on throw.\<close>

definition preserves ::
  "(('n, 'h, 'e, 'b, 'v) machine \<Rightarrow> bool) \<Rightarrow> ('n, 'h, 'e, 'b, 'v, 'a) run \<Rightarrow> bool" where
  "preserves I f \<longleftrightarrow> (\<forall>m r m'. I m \<longrightarrow> f m = (r, m') \<longrightarrow> I m')"

subsection \<open>Collaborators for the examples\<close>

text \<open>
  A base constructor that takes the identity of the snapshot as the base part of the element
  and throws when there is none, and two kernels, over a host state that counts the calls:
  one that throws on a missing snapshot, one that accepts everything.
\<close>

definition example_base :: "(nat, nat, string, nat) base_constructor" where
  "example_base k s w =
     (case id' (objects w s) of
        Val i \<Rightarrow> (Inr i, w\<lparr>host := host w + 1\<rparr>)
      | Null \<Rightarrow> (Inl ''no identity'', w)
      | Undefined \<Rightarrow> (Inl ''no identity'', w))"

definition strict_deserialize :: "(nat, nat, string, string \<times> nat nullable) deserializer" where
  "strict_deserialize k kind n w =
     (case n of
        Val x \<Rightarrow> (Inr (kind, Val x), w\<lparr>host := host w + 1\<rparr>)
      | Null \<Rightarrow> (Inl ''no snapshot'', w)
      | Undefined \<Rightarrow> (Inl ''no snapshot'', w))"

definition lenient_deserialize :: "(nat, nat, string, string \<times> nat nullable) deserializer" where
  "lenient_deserialize k kind n w = (Inr (kind, n), w\<lparr>host := host w + 1\<rparr>)"

text \<open>
  Snapshots: a material named gold with an occlusion and an emissive texture and no normal
  texture; a second material of the same name and another identity; one without a name;
  one whose PBR block is null; one without an identity.
\<close>

definition gold :: "nat SerializedMaterial" where
  "gold = \<lparr>id' = Val 7, name = Val ''gold'', pbrMetallicRoughness = Val 10,
           normalTexture = Null, occlusionTexture = Val 11, emissiveTexture = Val 12\<rparr>"

definition example_world :: "(nat, nat) world" where
  "example_world =
     \<lparr>objects = (\<lambda>r.
        if r = 1 then gold
        else if r = 2 then gold\<lparr>id' := Val 8\<rparr>
        else if r = 3 then gold\<lparr>name := Undefined\<rparr>
        else if r = 4 then gold\<lparr>pbrMetallicRoughness := Null\<rparr>
        else gold\<lparr>id' := Undefined\<rparr>),
      host = 0\<rparr>"

text \<open>
  A base constructor that asks for nothing, and a snapshot with nothing in it: no identity,
  no name, no PBR block, no texture.
\<close>

definition lenient_base :: "(nat, nat, string, nat nullable) base_constructor" where
  "lenient_base k s w = (Inr (id' (objects w s)), w\<lparr>host := host w + 1\<rparr>)"

definition bare :: "nat SerializedMaterial" where
  "bare = \<lparr>id' = Undefined, name = Undefined, pbrMetallicRoughness = Undefined,
           normalTexture = Undefined, occlusionTexture = Undefined,
           emissiveTexture = Undefined\<rparr>"

definition bare_world :: "(nat, nat) world" where
  "bare_world = \<lparr>objects = (\<lambda>r. bare), host = 0\<rparr>"

section \<open>Properties\<close>

lemmas run_defs =
  Material_constructor_def new_Material_def bind_def invoke_def load_def return_def
  field_initializers_def Let_def

lemmas example_defs =
  example_base_def strict_deserialize_def lenient_deserialize_def gold_def example_world_def

text \<open>When \<^verbatim>\<open>super\<close> throws, the constructor ends there, with the same exception.\<close>

lemma new_Material_super_throws:
  assumes "T k s w = (Inl e, w1)"
  shows "new_Material T D k s w = (Inl e, \<lparr>heap = w1, trace = [SuperCall k s (Inl e)]\<rparr>)"
  using assms by (simp add: run_defs)

text \<open>The same for the deserialization of the PBR block.\<close>

lemma new_Material_pbr_throws:
  assumes "T k s w = (Inr b, w1)"
    and "D k ''pbr-metallic-roughness'' (pbrMetallicRoughness (objects w1 s)) w1 = (Inl e, w2)"
  shows "new_Material T D k s w =
     (Inl e, \<lparr>heap = w2, trace = [SuperCall k s (Inr b),
        DeserializeCall PbrMetallicRoughness k ''pbr-metallic-roughness''
          (pbrMetallicRoughness (objects w1 s)) (Inl e)]\<rparr>)"
  using assms by (simp add: run_defs)

text \<open>An exception of the constructor is the exception of the last call it made.\<close>

lemma new_Material_throws_origin:
  assumes "new_Material T D k s w = (Inl e, m)"
  shows "trace m \<noteq> [] \<and> threw (last (trace m)) e"
  using assms by (auto simp: run_defs split: prod.splits sum.splits if_splits)

text \<open>With a kernel whose \<^verbatim>\<open>deserialize\<close> returns, the constructor returns once \<^verbatim>\<open>super\<close> has.\<close>

lemma new_Material_returns:
  assumes super: "T k s w = (Inr b, w1)"
    and deser: "\<forall>kind n w'. \<exists>v w''. D k kind n w' = (Inr v, w'')"
  shows "\<exists>this m. new_Material T D k s w = (Inr this, m)"
proof (cases "new_Material T D k s w")
  case (Pair out m)
  show ?thesis
  proof (cases out)
    case (Inr this)
    with Pair show ?thesis by simp
  next
    case (Inl e)
    with Pair have run: "new_Material T D k s w = (Inl e, m)" by simp
    from new_Material_throws_origin [OF run]
    have last: "trace m \<noteq> []" "threw (last (trace m)) e" by simp_all
    have "\<forall>ev \<in> set (trace m). \<not> threw ev e"
      using run super deser
      by (auto simp: run_defs split: prod.splits sum.splits if_splits)
        (metis Inl_Inr_False fst_conv)+
    with last show ?thesis by (meson last_in_set)
  qed
qed

subsection \<open>Invariants of a run\<close>

text \<open>
  An invariant that every call keeps is kept by the whole constructor: the rules follow the
  structure of the body.
\<close>

lemma preserves_return: "preserves I (return a)"
  by (simp add: preserves_def return_def)

lemma preserves_load: "preserves I (load r)"
  by (simp add: preserves_def load_def)

lemma preserves_bind:
  assumes "preserves I f" and "\<And>a. preserves I (g a)"
  shows "preserves I (bind f g)"
  unfolding preserves_def
proof (intro allI impI)
  fix m r m'
  assume I: "I m" and run: "bind f g m = (r, m')"
  obtain r1 m1 where f: "f m = (r1, m1)" by (cases "f m")
  with assms(1) I have I1: "I m1" by (auto simp: preserves_def)
  show "I m'"
  proof (cases r1)
    case (Inl e)
    with f run have "m' = m1" by (simp add: bind_def)
    with I1 show ?thesis by simp
  next
    case (Inr a)
    with f run have "g a m1 = (r, m')" by (simp add: bind_def)
    with assms(2) [of a] I1 show ?thesis by (auto simp: preserves_def)
  qed
qed

lemma preserves_if:
  assumes "c \<Longrightarrow> preserves I f" and "\<not> c \<Longrightarrow> preserves I g"
  shows "preserves I (if c then f else g)"
  using assms by simp

lemma preserves_invoke:
  assumes "\<And>m r w. I m \<Longrightarrow> c (heap m) = (r, w) \<Longrightarrow> I \<lparr>heap = w, trace = trace m @ [ev r]\<rparr>"
  shows "preserves I (invoke ev c)"
  using assms by (auto simp: preserves_def invoke_def split: prod.splits)

text \<open>Every entry of the transcript is genuine.\<close>

lemma genuine_super:
  "preserves (\<lambda>m. \<forall>ev \<in> set (trace m). genuine T D ev) (invoke (SuperCall k s) (T k s))"
  by (rule preserves_invoke) (auto, metis fst_conv)

lemma genuine_deserialize:
  "preserves (\<lambda>m. \<forall>ev \<in> set (trace m). genuine T D ev)
     (invoke (DeserializeCall sl k kind n) (D k kind n))"
  by (rule preserves_invoke) (auto, metis fst_conv)

lemma Material_constructor_genuine:
  "preserves (\<lambda>m. \<forall>ev \<in> set (trace m). genuine T D ev) (Material_constructor T D k s)"
  unfolding Material_constructor_def Let_def
  by (intro preserves_bind preserves_if preserves_return preserves_load
      genuine_super genuine_deserialize)

lemma run_genuine:
  fixes T :: "('n, 'h, 'e, 'b) base_constructor" and D :: "('n, 'h, 'e, 'v) deserializer"
  assumes "new_Material T D k s w = (out, m)"
  shows "\<forall>ev \<in> set (trace m). genuine T D ev"
proof -
  let ?start = "\<lparr>heap = w, trace = []\<rparr> :: ('n, 'h, 'e, 'b, 'v) machine"
  have "\<forall>ev \<in> set (trace ?start). genuine T D ev"
    by simp
  moreover from assms have "Material_constructor T D k s ?start = (out, m)"
    by (simp add: new_Material_def)
  ultimately show ?thesis
    using Material_constructor_genuine [of T D k s] unfolding preserves_def by blast
qed

text \<open>What the collaborators leave alone in the store, the constructor leaves alone.\<close>

lemma frame_invoke:
  fixes c :: "('n, 'h, 'e, 'a) call" and ev :: "'e + 'a \<Rightarrow> ('n, 'e, 'b, 'v) event"
  assumes "\<And>w'. objects (snd (c w')) r = objects w' r"
  shows "preserves (\<lambda>m. objects (heap m) r = x) (invoke ev c)"
proof (rule preserves_invoke)
  fix w' and m :: "('n, 'h, 'e, 'b, 'v) machine" and res :: "'e + 'a"
  assume "objects (heap m) r = x" and "c (heap m) = (res, w')"
  with assms [of "heap m"] show "objects (heap \<lparr>heap = w', trace = trace m @ [ev res]\<rparr>) r = x"
    by simp
qed

lemma run_frame:
  fixes T :: "('n, 'h, 'e, 'b) base_constructor" and D :: "('n, 'h, 'e, 'v) deserializer"
  assumes super: "\<And>w'. objects (snd (T k s w')) r = objects w' r"
    and deser: "\<And>kind n w'. objects (snd (D k kind n w')) r = objects w' r"
    and run: "new_Material T D k s w = (out, m)"
  shows "objects (heap m) r = objects w r"
proof -
  let ?start = "\<lparr>heap = w, trace = []\<rparr> :: ('n, 'h, 'e, 'b, 'v) machine"
  have "preserves (\<lambda>m. objects (heap m) r = objects w r) (Material_constructor T D k s)"
    unfolding Material_constructor_def Let_def
    by (intro preserves_bind preserves_if preserves_return preserves_load frame_invoke
        super deser)
  moreover have "objects (heap ?start) r = objects w r"
    by simp
  moreover from run have "Material_constructor T D k s ?start = (out, m)"
    by (simp add: new_Material_def)
  ultimately show ?thesis
    unfolding preserves_def by blast
qed

subsection \<open>The run after \<^verbatim>\<open>super\<close> has returned\<close>

text \<open>
  The lemmas of this part follow the constructor through every path: each call returns or
  throws, each guard holds or not.
\<close>

lemma run_trace_shape:
  assumes "T k s w = (Inr b, w1)" and "new_Material T D k s w = (out, m)"
  shows "trace m \<noteq> [] \<and> hd (trace m) = SuperCall k s (Inr b)
     \<and> (\<forall>ev \<in> set (tl (trace m)). call_slot ev \<noteq> None)"
  using assms by (auto simp: run_defs split: prod.splits sum.splits if_splits)

text \<open>The slots of the material that the constructor returns.\<close>

lemma run_slots:
  assumes "T k s w = (Inr b, w1)" and "new_Material T D k s w = (Inr this, m)"
  shows "base this = b \<and> sym_kernel this = Val k
     \<and> sym_name this = (if neq_null (name (objects w1 s)) then name (objects w1 s) else Undefined)
     \<and> neq_null (sym_pbrMetallicRoughness this)
     \<and> (neq_null (sym_normalTexture this) \<longleftrightarrow> neq_null (normalTexture (objects w1 s)))
     \<and> (neq_null (sym_occlusionTexture this) \<longleftrightarrow> neq_null (occlusionTexture (objects w1 s)))
     \<and> (neq_null (sym_emissiveTexture this) \<longleftrightarrow> neq_null (emissiveTexture (objects w1 s)))
     \<and> (\<not> neq_null (sym_normalTexture this) \<longrightarrow> sym_normalTexture this = Null)
     \<and> (\<not> neq_null (sym_occlusionTexture this) \<longrightarrow> sym_occlusionTexture this = Null)
     \<and> (\<not> neq_null (sym_emissiveTexture this) \<longrightarrow> sym_emissiveTexture this = Null)"
  using assms by (auto simp: run_defs split: prod.splits sum.splits if_splits)

text \<open>Its transcript: every value in a slot is the result of the call made for the slot.\<close>

lemma run_transcript:
  assumes "T k s w = (Inr b, w1)" and "new_Material T D k s w = (Inr this, m)"
  shows "trace m =
     SuperCall k s (Inr b)
     # returned PbrMetallicRoughness k ''pbr-metallic-roughness''
         (pbrMetallicRoughness (objects w1 s)) (sym_pbrMetallicRoughness this)
     @ returned NormalTexture k ''texture-info''
         (normalTexture (objects w1 s)) (sym_normalTexture this)
     @ returned OcclusionTexture k ''texture-info''
         (occlusionTexture (objects w1 s)) (sym_occlusionTexture this)
     @ returned EmissiveTexture k ''texture-info''
         (emissiveTexture (objects w1 s)) (sym_emissiveTexture this)"
  using assms by (auto simp: run_defs split: prod.splits sum.splits if_splits)

lemma deserialize_calls_append [simp]:
  "deserialize_calls (xs @ ys) = deserialize_calls xs @ deserialize_calls ys"
  by (induction xs rule: deserialize_calls.induct) simp_all

text \<open>Returning or not, the constructor makes the promised calls in order, as far as it gets.\<close>

lemma run_calls_prefix:
  assumes "T k s w = (Inr b, w1)" and "new_Material T D k s w = (out, m)"
  shows "prefix (deserialize_calls (trace m)) (expected_calls k (objects w1 s))
     \<and> deserialize_calls (trace m) \<noteq> []"
  using assms
  by (auto simp: run_defs expected_calls_def split: prod.splits sum.splits if_splits)

section \<open>The claims\<close>

subsection \<open>Null fields\<close>

lemma call_slot_in_calls:
  assumes "ev \<in> set evs" and "call_slot ev = Some sl"
  shows "sl \<in> fst ` set (deserialize_calls evs)"
  using assms by (induction evs rule: deserialize_calls.induct) auto

lemma expected_calls_slots:
  assumes "sl \<in> fst ` set (expected_calls k s)"
  shows "sl = PbrMetallicRoughness \<or> neq_null (snapshot_field sl s)"
  using assms by (auto simp: expected_calls_def simp del: filter.simps)

lemma get_nested_null:
  assumes "T k s w = (Inr b, w1)" and "new_Material T D k s w = (Inr this, m)"
    and "sl \<noteq> PbrMetallicRoughness" and "\<not> neq_null (snapshot_field sl (objects w1 s))"
  shows "get_nested sl this = Null"
  using run_slots [OF assms(1,2)] assms(3,4)
  by (cases sl)
    (simp_all add: get_normalTexture_def get_occlusionTexture_def get_emissiveTexture_def)

text \<open>
  C1, as amended. For each of the three texture fields (normal, occlusion, emissive): if,
  when the base constructor has returned, the field of the snapshot is null or undefined,
  then the constructor makes no call of \<^verbatim>\<open>kernel.deserialize\<close> for it; a material that
  the constructor returns has \<^verbatim>\<open>null\<close> in the slot; and an exception of the constructor
  is the exception of a call made for something else. The PBR block is not among them: it
  is deserialized without a test.
\<close>

theorem C1_null_texture_not_deserialized:
  assumes super: "T k s w = (Inr b, w1)"
    and texture: "sl \<noteq> PbrMetallicRoughness"
    and null: "\<not> neq_null (snapshot_field sl (objects w1 s))"
    and run: "new_Material T D k s w = (out, m)"
  shows "(\<forall>ev \<in> set (trace m). call_slot ev \<noteq> Some sl)
       \<and> (\<forall>this. out = Inr this \<longrightarrow> get_nested sl this = Null)
       \<and> (\<forall>e. out = Inl e \<longrightarrow>
            threw (last (trace m)) e \<and> call_slot (last (trace m)) \<noteq> Some sl)"
proof -
  have no_call: "\<forall>ev \<in> set (trace m). call_slot ev \<noteq> Some sl"
  proof
    fix ev
    assume ev: "ev \<in> set (trace m)"
    show "call_slot ev \<noteq> Some sl"
    proof
      assume "call_slot ev = Some sl"
      with ev have "sl \<in> fst ` set (deserialize_calls (trace m))"
        by (rule call_slot_in_calls)
      moreover have "set (deserialize_calls (trace m)) \<subseteq> set (expected_calls k (objects w1 s))"
        using run_calls_prefix [OF super run] by (simp add: set_mono_prefix)
      ultimately have "sl \<in> fst ` set (expected_calls k (objects w1 s))"
        by blast
      from expected_calls_slots [OF this] texture null show False
        by simp
    qed
  qed
  have slot: "\<forall>this. out = Inr this \<longrightarrow> get_nested sl this = Null"
  proof (intro allI impI)
    fix this
    assume "out = Inr this"
    with run have "new_Material T D k s w = (Inr this, m)" by simp
    from get_nested_null [where T = T and D = D and k = k and s = s, OF super this texture null]
    show "get_nested sl this = Null" .
  qed
  have thrown: "\<forall>e. out = Inl e \<longrightarrow>
      threw (last (trace m)) e \<and> call_slot (last (trace m)) \<noteq> Some sl"
  proof (intro allI impI)
    fix e
    assume "out = Inl e"
    with run have "new_Material T D k s w = (Inl e, m)" by simp
    from new_Material_throws_origin [OF this]
    have "trace m \<noteq> []" and "threw (last (trace m)) e" by simp_all
    with no_call show "threw (last (trace m)) e \<and> call_slot (last (trace m)) \<noteq> Some sl"
      by simp
  qed
  from no_call slot thrown show ?thesis by blast
qed

theorem C1_witness:
  "example_base 0 1 example_world = (Inr 7, example_world\<lparr>host := 1\<rparr>)
   \<and> NormalTexture \<noteq> PbrMetallicRoughness
   \<and> \<not> neq_null (snapshot_field NormalTexture (objects (example_world\<lparr>host := 1\<rparr>) 1))
   \<and> Some NormalTexture \<notin>
       call_slot ` set (trace (snd (new_Material example_base strict_deserialize 0 1 example_world)))
   \<and> (\<exists>this. fst (new_Material example_base strict_deserialize 0 1 example_world) = Inr this
         \<and> get_nested NormalTexture this = Null)"
proof -
  have b: "example_base 0 1 example_world = (Inr 7, example_world\<lparr>host := 1\<rparr>)"
    by (simp add: example_defs)
  have n: "\<not> neq_null (snapshot_field NormalTexture (objects (example_world\<lparr>host := 1\<rparr>) 1))"
    by (simp add: example_defs)
  have t: "NormalTexture \<noteq> PbrMetallicRoughness"
    by simp
  obtain out m where run: "new_Material example_base strict_deserialize 0 1 example_world = (out, m)"
    by (cases "new_Material example_base strict_deserialize 0 1 example_world")
  have ok: "\<exists>this. out = Inr this"
    using run by (auto simp: run_defs example_defs)
  from C1_null_texture_not_deserialized
    [where T = example_base and D = strict_deserialize and k = 0 and s = 1, OF b t n run] ok
  have "Some NormalTexture \<notin> call_slot ` set (trace m)
     \<and> (\<exists>this. out = Inr this \<and> get_nested NormalTexture this = Null)"
    by force
  with b t n run show ?thesis by simp
qed

text \<open>
  C1 as stated fails for the PBR block: the snapshot at reference 4 has \<^verbatim>\<open>null\<close> there,
  and the constructor calls \<^verbatim>\<open>kernel.deserialize('pbr-metallic-roughness', null)\<close> all
  the same; with a kernel that rejects a missing snapshot, the construction throws because
  of that very field.
\<close>

theorem C1_counterexample:
  "pbrMetallicRoughness (objects example_world 4) = Null
   \<and> new_Material example_base strict_deserialize 0 4 example_world =
     (Inl ''no snapshot'',
      \<lparr>heap = example_world\<lparr>host := 1\<rparr>,
       trace =
         [SuperCall 0 4 (Inr 7),
          DeserializeCall PbrMetallicRoughness 0 ''pbr-metallic-roughness'' Null
            (Inl ''no snapshot'')]\<rparr>)"
  by (simp add: run_defs example_defs)

subsection \<open>Nested structures\<close>

lemma returned_of_value:
  assumes "neq_null x"
  shows "\<exists>v. x = Val v \<and> returned sl k kind t x = [DeserializeCall sl k kind t (Inr v)]"
  using assms by (cases x) simp_all

lemma nested_call_recorded:
  assumes super: "T k s w = (Inr b, w1)"
    and present: "snapshot_field sl (objects w1 s) = Val n"
    and run: "new_Material T D k s w = (Inr this, m)"
  shows "\<exists>v. DeserializeCall sl k (kind_of sl) (Val n) (Inr v) \<in> set (trace m)
       \<and> get_nested sl this = Val v"
proof -
  note slots = run_slots [where T = T and D = D and k = k and s = s, OF super run]
  note tr = run_transcript [where T = T and D = D and k = k and s = s, OF super run]
  show ?thesis
  proof (cases sl)
    case PbrMetallicRoughness
    from slots have "neq_null (sym_pbrMetallicRoughness this)" by simp
    from returned_of_value [OF this]
    obtain v where "sym_pbrMetallicRoughness this = Val v"
      and "returned PbrMetallicRoughness k ''pbr-metallic-roughness''
             (pbrMetallicRoughness (objects w1 s)) (sym_pbrMetallicRoughness this)
           = [DeserializeCall PbrMetallicRoughness k ''pbr-metallic-roughness''
                (pbrMetallicRoughness (objects w1 s)) (Inr v)]"
      by blast
    with tr present PbrMetallicRoughness show ?thesis
      by (simp add: get_pbrMetallicRoughness_def)
  next
    case NormalTexture
    with present slots have "neq_null (sym_normalTexture this)" by simp
    from returned_of_value [OF this]
    obtain v where "sym_normalTexture this = Val v"
      and "returned NormalTexture k ''texture-info''
             (normalTexture (objects w1 s)) (sym_normalTexture this)
           = [DeserializeCall NormalTexture k ''texture-info''
                (normalTexture (objects w1 s)) (Inr v)]"
      by blast
    with tr present NormalTexture show ?thesis
      by (simp add: get_normalTexture_def)
  next
    case OcclusionTexture
    with present slots have "neq_null (sym_occlusionTexture this)" by simp
    from returned_of_value [OF this]
    obtain v where "sym_occlusionTexture this = Val v"
      and "returned OcclusionTexture k ''texture-info''
             (occlusionTexture (objects w1 s)) (sym_occlusionTexture this)
           = [DeserializeCall OcclusionTexture k ''texture-info''
                (occlusionTexture (objects w1 s)) (Inr v)]"
      by blast
    with tr present OcclusionTexture show ?thesis
      by (simp add: get_occlusionTexture_def)
  next
    case EmissiveTexture
    with present slots have "neq_null (sym_emissiveTexture this)" by simp
    from returned_of_value [OF this]
    obtain v where "sym_emissiveTexture this = Val v"
      and "returned EmissiveTexture k ''texture-info''
             (emissiveTexture (objects w1 s)) (sym_emissiveTexture this)
           = [DeserializeCall EmissiveTexture k ''texture-info''
                (emissiveTexture (objects w1 s)) (Inr v)]"
      by blast
    with tr present EmissiveTexture show ?thesis
      by (simp add: get_emissiveTexture_def)
  qed
qed

text \<open>
  C2. For each of the four nested fields: if, when the base constructor has returned, the
  field of the snapshot holds a nested snapshot, then a constructor that returns has called
  \<^verbatim>\<open>kernel.deserialize\<close> on its kernel, during the construction, with the kind of the
  field (\<open>kind_of\<close>) and that nested snapshot; the call is in the transcript of the construction
  and has returned a value, one that the kernel does return for these arguments; and the
  accessor of the field, which only reads the slot, returns that value.
\<close>

theorem C2_nested_resolved_at_construction:
  fixes T :: "('n, 'h, 'e, 'b) base_constructor" and D :: "('n, 'h, 'e, 'v) deserializer"
  assumes super: "T k s w = (Inr b, w1)"
    and present: "snapshot_field sl (objects w1 s) = Val n"
    and run: "new_Material T D k s w = (Inr this, m)"
  shows "\<exists>v. DeserializeCall sl k (kind_of sl) (Val n) (Inr v) \<in> set (trace m)
       \<and> (\<exists>w'. fst (D k (kind_of sl) (Val n) w') = Inr v)
       \<and> get_nested sl this = Val v"
proof -
  from nested_call_recorded [where T = T and D = D and k = k and s = s, OF super present run]
  obtain v where call: "DeserializeCall sl k (kind_of sl) (Val n) (Inr v) \<in> set (trace m)"
    and slot: "get_nested sl this = Val v"
    by blast
  from run_genuine [OF run] call
  have "genuine T D (DeserializeCall sl k (kind_of sl) (Val n) (Inr v) :: ('n, 'e, 'b, 'v) event)"
    by blast
  then have "\<exists>w'. fst (D k (kind_of sl) (Val n) w') = Inr v"
    by simp
  with call slot show ?thesis by blast
qed

theorem C2_witness:
  "example_base 0 1 example_world = (Inr 7, example_world\<lparr>host := 1\<rparr>)
   \<and> snapshot_field OcclusionTexture (objects (example_world\<lparr>host := 1\<rparr>) 1) = Val 11
   \<and> (\<exists>this m. new_Material example_base strict_deserialize 0 1 example_world = (Inr this, m)
        \<and> DeserializeCall OcclusionTexture 0 ''texture-info'' (Val 11) (Inr (''texture-info'', Val 11))
             \<in> set (trace m)
        \<and> get_occlusionTexture this = Val (''texture-info'', Val 11)
        \<and> get_normalTexture this = Null)"
proof -
  have b: "example_base 0 1 example_world = (Inr 7, example_world\<lparr>host := 1\<rparr>)"
    by (simp add: example_defs)
  have f: "snapshot_field OcclusionTexture (objects (example_world\<lparr>host := 1\<rparr>) 1) = Val 11"
    by (simp add: example_defs)
  obtain this m where
    run: "new_Material example_base strict_deserialize 0 1 example_world = (Inr this, m)"
    and occ: "get_occlusionTexture this = Val (''texture-info'', Val 11)"
    and nor: "get_normalTexture this = Null"
    by (simp add: run_defs example_defs get_occlusionTexture_def get_normalTexture_def)
  from C2_nested_resolved_at_construction
    [where T = example_base and D = strict_deserialize and k = 0 and s = 1, OF b f run] occ
  have "DeserializeCall OcclusionTexture 0 ''texture-info'' (Val 11) (Inr (''texture-info'', Val 11))
      \<in> set (trace m)"
    by auto
  with b f run occ nor show ?thesis by blast
qed

subsection \<open>The name\<close>

text \<open>
  C4. Once the base constructor has returned, the name decides nothing about the outcome:
  a material that the constructor returns reports its name as absent (\<^verbatim>\<open>undefined\<close>,
  not an empty string) when the snapshot has no name or a null one, and as exactly the
  string of the snapshot otherwise; and with a kernel whose \<^verbatim>\<open>deserialize\<close> returns,
  the constructor does return a material.
\<close>

theorem C4_name_copied_when_present:
  assumes super: "T k s w = (Inr b, w1)"
  shows "(\<forall>this m. new_Material T D k s w = (Inr this, m) \<longrightarrow>
            get_name this =
              (case name (objects w1 s) of
                 Val x \<Rightarrow> Val x | Null \<Rightarrow> Undefined | Undefined \<Rightarrow> Undefined))
       \<and> ((\<forall>kind n w'. \<exists>v w''. D k kind n w' = (Inr v, w'')) \<longrightarrow>
            (\<exists>this m. new_Material T D k s w = (Inr this, m)))"
proof (intro conjI allI impI)
  fix this m
  assume run: "new_Material T D k s w = (Inr this, m)"
  from run_slots [where T = T and D = D and k = k and s = s, OF super run]
  have "sym_name this =
      (if neq_null (name (objects w1 s)) then name (objects w1 s) else Undefined)"
    by simp
  then show "get_name this =
     (case name (objects w1 s) of Val x \<Rightarrow> Val x | Null \<Rightarrow> Undefined | Undefined \<Rightarrow> Undefined)"
    by (cases "name (objects w1 s)") (simp_all add: get_name_def)
next
  assume "\<forall>kind n w'. \<exists>v w''. D k kind n w' = (Inr v, w'')"
  with super show "\<exists>this m. new_Material T D k s w = (Inr this, m)"
    by (rule new_Material_returns)
qed

theorem C4_witness:
  "example_base 0 3 example_world = (Inr 7, example_world\<lparr>host := 1\<rparr>)
   \<and> name (objects example_world 3) = Undefined
   \<and> (\<exists>this m. new_Material example_base lenient_deserialize 0 3 example_world = (Inr this, m)
        \<and> get_name this = Undefined)
   \<and> (\<exists>this m. new_Material example_base lenient_deserialize 0 1 example_world = (Inr this, m)
        \<and> get_name this = Val ''gold'')"
proof -
  have b3: "example_base 0 3 example_world = (Inr 7, example_world\<lparr>host := 1\<rparr>)"
    by (simp add: example_defs)
  have b1: "example_base 0 1 example_world = (Inr 7, example_world\<lparr>host := 1\<rparr>)"
    by (simp add: example_defs)
  have total: "\<forall>kind n w'. \<exists>v w''. lenient_deserialize 0 kind n w' = (Inr v, w'')"
    by (simp add: lenient_deserialize_def)
  have n3: "name (objects (example_world\<lparr>host := 1\<rparr>) 3) = Undefined"
    by (simp add: example_defs)
  have n1: "name (objects (example_world\<lparr>host := 1\<rparr>) 1) = Val ''gold''"
    by (simp add: example_defs)
  from C4_name_copied_when_present
    [where T = example_base and k = 0 and s = 3 and D = lenient_deserialize, OF b3] total n3
  have r3: "\<exists>this m. new_Material example_base lenient_deserialize 0 3 example_world = (Inr this, m)
      \<and> get_name this = Undefined"
    by fastforce
  from C4_name_copied_when_present
    [where T = example_base and k = 0 and s = 1 and D = lenient_deserialize, OF b1] total n1
  have r1: "\<exists>this m. new_Material example_base lenient_deserialize 0 1 example_world = (Inr this, m)
      \<and> get_name this = Val ''gold''"
    by fastforce
  from b3 r3 r1 show ?thesis by (simp add: example_defs)
qed

subsection \<open>The base constructor comes first\<close>

text \<open>
  C5. The first call of the constructor is \<^verbatim>\<open>super\<close>, with the kernel and the snapshot it
  was given itself, in the world as it found it. If that call throws, the constructor throws
  the same exception and has done nothing else: no slot exists, no deserialization was
  asked for. If the constructor returns a material, its base part is what that call
  returned, and every other call of the transcript is a deserialization.
\<close>

theorem C5_super_first:
  "\<exists>r evs. trace (snd (new_Material T D k s w)) = SuperCall k s r # evs
      \<and> r = fst (T k s w)
      \<and> (\<forall>e. r = Inl e \<longrightarrow>
            new_Material T D k s w =
              (Inl e, \<lparr>heap = snd (T k s w), trace = [SuperCall k s (Inl e)]\<rparr>))
      \<and> (\<forall>this m. new_Material T D k s w = (Inr this, m) \<longrightarrow> r = Inr (base this))
      \<and> (\<forall>ev \<in> set evs. call_slot ev \<noteq> None)"
proof (cases "T k s w")
  case (Pair r w1)
  show ?thesis
  proof (cases r)
    case (Inl e)
    with Pair have "T k s w = (Inl e, w1)" by simp
    from new_Material_super_throws [where T = T and k = k and s = s and D = D, OF this] Pair Inl
    show ?thesis by simp
  next
    case (Inr b)
    with Pair have super: "T k s w = (Inr b, w1)" by simp
    obtain out m where run: "new_Material T D k s w = (out, m)"
      by (cases "new_Material T D k s w")
    from run_trace_shape [where T = T and D = D and k = k and s = s, OF super run]
    have shape: "trace m \<noteq> []" "hd (trace m) = SuperCall k s (Inr b)"
      "\<forall>ev \<in> set (tl (trace m)). call_slot ev \<noteq> None"
      by simp_all
    then have tr: "trace m = SuperCall k s (Inr b) # tl (trace m)"
      by (metis list.collapse)
    have "\<forall>this m'. new_Material T D k s w = (Inr this, m') \<longrightarrow> Inr b = Inr (base this)"
      using run_slots [where T = T and D = D and k = k and s = s, OF super] by simp
    with tr shape(3) run super show ?thesis
      by (intro exI [of _ "Inr b"] exI [of _ "tl (trace m)"]) simp
  qed
qed

theorem C5_witness:
  "trace (snd (new_Material example_base strict_deserialize 0 5 example_world))
     = [SuperCall 0 5 (Inl ''no identity'')]
   \<and> fst (new_Material example_base strict_deserialize 0 5 example_world) = Inl ''no identity''
   \<and> (\<exists>evs. trace (snd (new_Material example_base strict_deserialize 0 1 example_world))
        = SuperCall 0 1 (Inr 7) # evs)"
proof -
  have b5: "fst (example_base 0 5 example_world) = Inl ''no identity''"
    by (simp add: example_defs)
  have b1: "fst (example_base 0 1 example_world) = Inr 7"
    by (simp add: example_defs)
  from C5_super_first [of example_base strict_deserialize 0 5 example_world] b5
  have first: "trace (snd (new_Material example_base strict_deserialize 0 5 example_world))
       = [SuperCall 0 5 (Inl ''no identity'')]
     \<and> fst (new_Material example_base strict_deserialize 0 5 example_world) = Inl ''no identity''"
    by auto
  from C5_super_first [of example_base strict_deserialize 0 1 example_world] b1
  have "\<exists>evs. trace (snd (new_Material example_base strict_deserialize 0 1 example_world))
       = SuperCall 0 1 (Inr 7) # evs"
    by auto
  with first show ?thesis by simp
qed

subsection \<open>Malformed snapshots\<close>

text \<open>No call but the last one of a run has thrown, and none at all when the run returns.\<close>

lemma run_only_last_threw:
  assumes "new_Material T D k s w = (out, m)"
  shows "(\<forall>ev \<in> set (butlast (trace m)). \<forall>e. \<not> threw ev e)
     \<and> (\<forall>this. out = Inr this \<longrightarrow> (\<forall>e. \<not> threw (last (trace m)) e))"
  using assms by (auto simp: run_defs split: prod.splits sum.splits if_splits)

text \<open>The first two calls, once \<^verbatim>\<open>super\<close> has returned: the PBR block goes to the kernel as it is.\<close>

lemma run_forwards:
  assumes "T k s w = (Inr b, w1)" and "new_Material T D k s w = (out, m)"
  shows "take 2 (trace m) =
     [SuperCall k s (Inr b),
      DeserializeCall PbrMetallicRoughness k ''pbr-metallic-roughness''
        (pbrMetallicRoughness (objects w1 s))
        (fst (D k ''pbr-metallic-roughness'' (pbrMetallicRoughness (objects w1 s)) w1))]"
  using assms by (auto simp: run_defs split: prod.splits sum.splits if_splits)

text \<open>
  C7, as amended. The constructor checks no field of the snapshot itself. It hands the
  snapshot to the base constructor and, once that has returned, the PBR block to
  \<^verbatim>\<open>kernel.deserialize\<close>, as they are, missing or not. It throws only when one of the calls
  to its collaborators throws: then at once, with the exception of that call, which is the
  last one it makes, and without returning a material. So a snapshot that the base
  constructor rejects ends the construction in \<^verbatim>\<open>super\<close>, and a PBR block that the kernel
  rejects ends it in the second call. When no call throws, the constructor returns.
\<close>

theorem C7_throws_only_with_a_collaborator:
  assumes run: "new_Material T D k s w = (out, m)"
  shows "(\<forall>e. out = Inl e \<longrightarrow>
            trace m \<noteq> [] \<and> threw (last (trace m)) e
            \<and> (\<forall>ev \<in> set (butlast (trace m)). \<forall>e'. \<not> threw ev e'))
       \<and> (\<forall>this. out = Inr this \<longrightarrow> (\<forall>ev \<in> set (trace m). \<forall>e'. \<not> threw ev e'))
       \<and> (\<forall>e w1. T k s w = (Inl e, w1) \<longrightarrow>
            out = Inl e \<and> trace m = [SuperCall k s (Inl e)])
       \<and> (\<forall>b w1. T k s w = (Inr b, w1) \<longrightarrow>
            take 2 (trace m) =
              [SuperCall k s (Inr b),
               DeserializeCall PbrMetallicRoughness k ''pbr-metallic-roughness''
                 (pbrMetallicRoughness (objects w1 s))
                 (fst (D k ''pbr-metallic-roughness'' (pbrMetallicRoughness (objects w1 s)) w1))])
       \<and> (\<forall>b w1 e w2.
            T k s w = (Inr b, w1)
            \<and> D k ''pbr-metallic-roughness'' (pbrMetallicRoughness (objects w1 s)) w1 = (Inl e, w2)
            \<longrightarrow> out = Inl e \<and> length (trace m) = 2)"
proof -
  note quiet = run_only_last_threw [OF run]
  have thrown: "\<forall>e. out = Inl e \<longrightarrow>
      trace m \<noteq> [] \<and> threw (last (trace m)) e
      \<and> (\<forall>ev \<in> set (butlast (trace m)). \<forall>e'. \<not> threw ev e')"
  proof (intro allI impI)
    fix e
    assume "out = Inl e"
    with run have "new_Material T D k s w = (Inl e, m)" by simp
    from new_Material_throws_origin [OF this] quiet
    show "trace m \<noteq> [] \<and> threw (last (trace m)) e
      \<and> (\<forall>ev \<in> set (butlast (trace m)). \<forall>e'. \<not> threw ev e')"
      by simp
  qed
  have returned: "\<forall>this. out = Inr this \<longrightarrow> (\<forall>ev \<in> set (trace m). \<forall>e'. \<not> threw ev e')"
  proof (intro allI impI ballI)
    fix this ev e'
    assume ok: "out = Inr this" and ev: "ev \<in> set (trace m)"
    then have "trace m \<noteq> []" by auto
    then have "trace m = butlast (trace m) @ [last (trace m)]" by simp
    with ev have "ev \<in> set (butlast (trace m)) \<or> ev = last (trace m)"
      by (metis Un_iff empty_iff insert_iff list.set(1) list.set(2) set_append)
    with quiet ok show "\<not> threw ev e'" by blast
  qed
  have super: "\<forall>e w1. T k s w = (Inl e, w1) \<longrightarrow>
      out = Inl e \<and> trace m = [SuperCall k s (Inl e)]"
  proof (intro allI impI)
    fix e w1
    assume "T k s w = (Inl e, w1)"
    from new_Material_super_throws [where T = T and D = D and k = k and s = s, OF this] run
    show "out = Inl e \<and> trace m = [SuperCall k s (Inl e)]" by auto
  qed
  have forwards: "\<forall>b w1. T k s w = (Inr b, w1) \<longrightarrow>
      take 2 (trace m) =
        [SuperCall k s (Inr b),
         DeserializeCall PbrMetallicRoughness k ''pbr-metallic-roughness''
           (pbrMetallicRoughness (objects w1 s))
           (fst (D k ''pbr-metallic-roughness'' (pbrMetallicRoughness (objects w1 s)) w1))]"
  proof (intro allI impI)
    fix b w1
    assume "T k s w = (Inr b, w1)"
    from run_forwards [where T = T and D = D and k = k and s = s, OF this run]
    show "take 2 (trace m) =
        [SuperCall k s (Inr b),
         DeserializeCall PbrMetallicRoughness k ''pbr-metallic-roughness''
           (pbrMetallicRoughness (objects w1 s))
           (fst (D k ''pbr-metallic-roughness'' (pbrMetallicRoughness (objects w1 s)) w1))]" .
  qed
  have pbr: "\<forall>b w1 e w2.
      T k s w = (Inr b, w1)
      \<and> D k ''pbr-metallic-roughness'' (pbrMetallicRoughness (objects w1 s)) w1 = (Inl e, w2)
      \<longrightarrow> out = Inl e \<and> length (trace m) = 2"
  proof (intro allI impI)
    fix b w1 e w2
    assume a: "T k s w = (Inr b, w1)
      \<and> D k ''pbr-metallic-roughness'' (pbrMetallicRoughness (objects w1 s)) w1 = (Inl e, w2)"
    then have t: "T k s w = (Inr b, w1)"
      and d: "D k ''pbr-metallic-roughness'' (pbrMetallicRoughness (objects w1 s)) w1 = (Inl e, w2)"
      by simp_all
    from new_Material_pbr_throws [where T = T and D = D and k = k and s = s, OF t d] run
    show "out = Inl e \<and> length (trace m) = 2" by auto
  qed
  from thrown returned super forwards pbr show ?thesis by blast
qed

theorem C7_witness:
  "example_base 0 4 example_world = (Inr 7, example_world\<lparr>host := 1\<rparr>)
   \<and> strict_deserialize 0 ''pbr-metallic-roughness''
        (pbrMetallicRoughness (objects (example_world\<lparr>host := 1\<rparr>) 4))
        (example_world\<lparr>host := 1\<rparr>) = (Inl ''no snapshot'', example_world\<lparr>host := 1\<rparr>)
   \<and> fst (new_Material example_base strict_deserialize 0 4 example_world) = Inl ''no snapshot''
   \<and> length (trace (snd (new_Material example_base strict_deserialize 0 4 example_world))) = 2
   \<and> threw (last (trace (snd (new_Material example_base strict_deserialize 0 4 example_world))))
        ''no snapshot''"
proof -
  have t: "example_base 0 4 example_world = (Inr 7, example_world\<lparr>host := 1\<rparr>)"
    by (simp add: example_defs)
  have d: "strict_deserialize 0 ''pbr-metallic-roughness''
      (pbrMetallicRoughness (objects (example_world\<lparr>host := 1\<rparr>) 4))
      (example_world\<lparr>host := 1\<rparr>) = (Inl ''no snapshot'', example_world\<lparr>host := 1\<rparr>)"
    by (simp add: example_defs)
  obtain out m where
    run: "new_Material example_base strict_deserialize 0 4 example_world = (out, m)"
    by (cases "new_Material example_base strict_deserialize 0 4 example_world")
  note c7 = C7_throws_only_with_a_collaborator [OF run]
  from c7 t d have out: "out = Inl ''no snapshot''" and len: "length (trace m) = 2"
    by blast+
  with c7 have "threw (last (trace m)) ''no snapshot''"
    by blast
  with t d run out len show ?thesis by simp
qed

text \<open>
  C7 as stated fails: with a base constructor and a kernel that ask for nothing, the
  snapshot without identity and without PBR block is constructed into a material, whose
  PBR slot holds what the kernel made of \<^verbatim>\<open>undefined\<close>.
\<close>

theorem C7_counterexample:
  "id' (objects bare_world 1) = Undefined
   \<and> pbrMetallicRoughness (objects bare_world 1) = Undefined
   \<and> new_Material lenient_base lenient_deserialize 0 1 bare_world =
     (Inr \<lparr>base = Undefined,
           sym_pbrMetallicRoughness = Val (''pbr-metallic-roughness'', Undefined),
           sym_normalTexture = Null,
           sym_occlusionTexture = Null,
           sym_emissiveTexture = Null,
           sym_kernel = Val 0,
           sym_name = Undefined\<rparr>,
      \<lparr>heap = bare_world\<lparr>host := 2\<rparr>,
       trace =
         [SuperCall 0 1 (Inr Undefined),
          DeserializeCall PbrMetallicRoughness 0 ''pbr-metallic-roughness'' Undefined
            (Inr (''pbr-metallic-roughness'', Undefined))]\<rparr>)"
  by (simp add: run_defs lenient_base_def lenient_deserialize_def bare_def bare_world_def)

subsection \<open>The order of the calls\<close>






subsection \<open>The snapshot is only read\<close>

text \<open>
  C10. If neither the base constructor nor \<^verbatim>\<open>kernel.deserialize\<close> changes the snapshot
  object that the constructor was given, the object is the same after the construction as
  before, whether the constructor returns or throws.
\<close>

theorem C10_snapshot_not_written:
  assumes super: "\<forall>w'. objects (snd (T k s w')) s = objects w' s"
    and deser: "\<forall>kind n w'. objects (snd (D k kind n w')) s = objects w' s"
  shows "objects (heap (snd (new_Material T D k s w))) s = objects w s"
proof -
  obtain out m where run: "new_Material T D k s w = (out, m)"
    by (cases "new_Material T D k s w")
  have "objects (heap m) s = objects w s"
    using super deser run by (intro run_frame [where T = T and D = D and k = k and s = s]) simp_all
  with run show ?thesis by simp
qed

theorem C10_witness:
  "(\<forall>w'. objects (snd (example_base 0 1 w')) 1 = objects w' 1)
   \<and> (\<forall>kind n w'. objects (snd (strict_deserialize 0 kind n w')) 1 = objects w' 1)
   \<and> objects (heap (snd (new_Material example_base strict_deserialize 0 1 example_world))) 1 = gold
   \<and> host (heap (snd (new_Material example_base strict_deserialize 0 1 example_world))) = 4"
proof -
  have b: "\<forall>w'. objects (snd (example_base 0 1 w')) 1 = objects w' 1"
    by (simp add: example_base_def split: nullable.split)
  have d: "\<forall>kind n w'. objects (snd (strict_deserialize 0 kind n w')) 1 = objects w' 1"
    by (simp add: strict_deserialize_def split: nullable.split)
  have g: "objects example_world 1 = gold"
    by (simp add: example_world_def)
  have h: "host (heap (snd (new_Material example_base strict_deserialize 0 1 example_world))) = 4"
    by (simp add: run_defs example_defs)
  from C10_snapshot_not_written [of example_base 0 1 strict_deserialize example_world, OF b d] g
  have "objects (heap (snd (new_Material example_base strict_deserialize 0 1 example_world))) 1 = gold"
    by simp
  with b d h show ?thesis by blast
qed

end
